theory Spec2Isabelle
  imports Main
begin

section \<open>Text utilities\<close>

text \<open>
  Paths, file lines and command output are byte strings. \<open>starts_with p s\<close> holds when
  \<open>p\<close> is a prefix of \<open>s\<close>; \<open>contains_str p s\<close> holds when \<open>p\<close> occurs in \<open>s\<close>, which is
  what \<^verbatim>\<open>grep 'pruna_pro'\<close> decides for one line (the pattern has no regular-expression
  metacharacter, so it matches itself).
\<close>

fun starts_with :: "string \<Rightarrow> string \<Rightarrow> bool" where
  "starts_with [] s = True"
| "starts_with (p # ps) [] = False"
| "starts_with (p # ps) (c # cs) = (p = c \<and> starts_with ps cs)"

fun contains_str :: "string \<Rightarrow> string \<Rightarrow> bool" where
  "contains_str pat [] = starts_with pat []"
| "contains_str pat (c # cs) = (starts_with pat (c # cs) \<or> contains_str pat cs)"

definition tab :: char where
  "tab = CHR 0x09"

definition nl :: char where
  "nl = CHR 0x0A"

definition backslash :: char where
  "backslash = CHR 0x5C"

definition dq :: string where
  "dq = [CHR 0x22]"

definition is_blank :: "char \<Rightarrow> bool" where
  "is_blank c = (c = CHR '' '' \<or> c = CHR 0x09 \<or> c = CHR 0x0A)"

text \<open>
  Field splitting as awk does it with the default separator, and as xargs splits its
  input into arguments: runs of blanks separate the fields, leading and trailing blanks
  are dropped. \<open>cur\<close> is the field being read.
\<close>

fun fields_from :: "string \<Rightarrow> string \<Rightarrow> string list" where
  "fields_from cur [] = (if cur = [] then [] else [cur])"
| "fields_from cur (c # cs) =
     (if is_blank c then (if cur = [] then fields_from [] cs else cur # fields_from [] cs)
      else fields_from (cur @ [c]) cs)"

definition awk_fields :: "string \<Rightarrow> string list" where
  "awk_fields l = fields_from [] l"

text \<open>awk's \<open>$n\<close> for \<open>n \<ge> 1\<close>: the empty string when the record has fewer fields.\<close>

definition awk_field :: "nat \<Rightarrow> string list \<Rightarrow> string" where
  "awk_field n fs = (if 0 < n \<and> n \<le> length fs then fs ! (n - 1) else [])"

fun decimal :: "nat \<Rightarrow> string" where
  "decimal n = (if n < 10 then [''0123456789'' ! n]
                else decimal (n div 10) @ [''0123456789'' ! (n mod 10)])"

declare decimal.simps [simp del]

text \<open>C's \<^verbatim>\<open>%03d\<close>: the decimal digits, padded with zeros to three.\<close>

definition pad3 :: "nat \<Rightarrow> string" where
  "pad3 n = replicate (3 - length (decimal n)) (CHR ''0'') @ decimal n"

text \<open>
  A path is plain when it is not empty and made of printable ASCII characters other than
  the blank, the quotes and the backslash: git prints such a path as it is, awk reads it
  as one field and xargs reads it as one argument, unchanged.
\<close>

definition plain_char :: "char \<Rightarrow> bool" where
  "plain_char c =
     (let n = (of_char c :: nat) in 32 < n \<and> n < 127 \<and> n \<noteq> 34 \<and> n \<noteq> 39 \<and> n \<noteq> 92)"

definition plain_path :: "string \<Rightarrow> bool" where
  "plain_path p = (p \<noteq> [] \<and> list_all plain_char p)"

section \<open>The staged change set and the working tree\<close>

text \<open>
  The status letters of \<^verbatim>\<open>git diff --cached --name-status\<close>. A rename and a copy carry
  a similarity score and two paths.
\<close>

datatype status = Added | Copied nat | Deleted | Modified | Renamed nat | TypeChanged | Unmerged

text \<open>
  One staged entry. \<open>path\<close> is the entry's path in the index (for a deletion, the path
  removed); \<open>old_path\<close> is read for a rename or a copy only. \<open>tags\<close> are the file's type
  tags as pre-commit computes them (\<open>text\<close>, \<open>binary\<close>, \<open>python\<close>, ...). \<open>diff_lines\<close> are
  the added (\<^verbatim>\<open>+\<close>), removed (\<^verbatim>\<open>-\<close>) and context lines that \<^verbatim>\<open>git diff --cached\<close>
  prints for the entry; the guard never reads them.
\<close>

record staged =
  status :: status
  old_path :: string
  path :: string
  tags :: "string list"
  diff_lines :: "string list"

text \<open>
  The working tree as the hook finds it: the lines of each file that exists, \<open>None\<close> for a
  path that does not. pre-commit stashes the unstaged changes before it runs the hooks, so
  a staged file has its staged content there.
\<close>

type_synonym worktree = "string \<Rightarrow> string list option"

text \<open>
  The first field of a line: the status letter, followed for a rename or a copy by the
  similarity score as \<^verbatim>\<open>%03d\<close>.
\<close>

fun status_field :: "status \<Rightarrow> string" where
  "status_field Added = ''A''"
| "status_field (Copied n) = CHR ''C'' # pad3 n"
| "status_field Deleted = ''D''"
| "status_field Modified = ''M''"
| "status_field (Renamed n) = CHR ''R'' # pad3 n"
| "status_field TypeChanged = ''T''"
| "status_field Unmerged = ''U''"

fun two_paths :: "status \<Rightarrow> bool" where
  "two_paths (Copied n) = True"
| "two_paths (Renamed n) = True"
| "two_paths s = False"

text \<open>
  git prints a path in C-style quotes when one of its bytes is a control character, a
  double quote, a backslash or, with \<open>core.quotePath\<close> at its default, a byte from 128 up:
  such a byte is written as a backslash and a letter, or a backslash and three octal
  digits. Every other path is printed as it is.
\<close>

definition octal3 :: "nat \<Rightarrow> string" where
  "octal3 n = [''01234567'' ! ((n div 64) mod 8), ''01234567'' ! ((n div 8) mod 8),
               ''01234567'' ! (n mod 8)]"

definition cq_escape :: "char \<Rightarrow> string option" where
  "cq_escape c =
     (let n = (of_char c :: nat) in
      if n = 7 then Some [backslash, CHR ''a'']
      else if n = 8 then Some [backslash, CHR ''b'']
      else if n = 9 then Some [backslash, CHR ''t'']
      else if n = 10 then Some [backslash, CHR ''n'']
      else if n = 11 then Some [backslash, CHR ''v'']
      else if n = 12 then Some [backslash, CHR ''f'']
      else if n = 13 then Some [backslash, CHR ''r'']
      else if n = 34 then Some [backslash, CHR 0x22]
      else if n = 92 then Some [backslash, backslash]
      else if n < 32 \<or> 127 \<le> n then Some (backslash # octal3 n)
      else None)"

definition c_quote :: "string \<Rightarrow> string" where
  "c_quote p =
     (if list_ex (\<lambda>c. cq_escape c \<noteq> None) p
      then dq @ concat (map (\<lambda>c. case cq_escape c of None \<Rightarrow> [c] | Some e \<Rightarrow> e) p) @ dq
      else p)"

text \<open>
  One line of \<^verbatim>\<open>git diff --cached --name-status\<close>: the status, a tab, the path; for a
  rename or a copy the status with its score, the old path and the new path.
\<close>

definition name_status_line :: "staged \<Rightarrow> string" where
  "name_status_line e =
     (if two_paths (status e)
      then status_field (status e) @ [tab] @ c_quote (old_path e) @ [tab] @ c_quote (path e)
      else status_field (status e) @ [tab] @ c_quote (path e))"

definition git_diff_cached_name_status :: "staged list \<Rightarrow> string list" where
  "git_diff_cached_name_status es = map name_status_line es"

section \<open>The check-pruna-pro entry\<close>

text \<open>
  The hook's entry is
  \<^verbatim>\<open>git diff --cached --name-status | awk '$1 != "D" {print $2}' | xargs grep -q 'pruna_pro' && { echo 'Error: pruna_pro found'; exit 1; } || exit 0\<close>
  run by \<^verbatim>\<open>bash -c\<close>. Each stage of the pipeline is a function; exit statuses are
  natural numbers.
\<close>

text \<open>The awk program \<^verbatim>\<open>$1 != "D" {print $2}\<close>, one output line per selected record.\<close>

definition awk_prog :: "string list \<Rightarrow> string list" where
  "awk_prog ls = map (\<lambda>l. awk_field 2 (awk_fields l))
                     (filter (\<lambda>l. awk_field 1 (awk_fields l) \<noteq> ''D'') ls)"

text \<open>
  GNU xargs reads its input character by character. Blanks and newlines separate the
  arguments; a backslash takes the next character literally; a single or double quote
  starts a quoted part that runs to the same quote, and must close before the end of the
  line. \<open>cur\<close> is the argument being read. The result is the arguments read and whether
  the input was read to its end: reading stops at an unmatched quote and at an argument
  that outgrows the line buffer.
\<close>

definition xargs_blank :: "char \<Rightarrow> bool" where
  "xargs_blank c = (c = CHR '' '' \<or> c = CHR 0x09)"

definition xargs_space :: "char \<Rightarrow> bool" where
  "xargs_space c = (xargs_blank c \<or> c = CHR 0x0A \<or> c = CHR 0x0B \<or> c = CHR 0x0C \<or> c = CHR 0x0D)"

text \<open>
  The size of a command line as xargs counts it: each word and its terminating zero. The
  command buffer is 128 KiB by default, the words \<^verbatim>\<open>grep -q pruna_pro\<close> are in it from
  the start, and an argument may fill what is left.
\<close>

definition command_chars :: "string list \<Rightarrow> nat" where
  "command_chars ws = sum_list (map (\<lambda>w. length w + 1) ws)"

definition arg_max :: nat where
  "arg_max = 131072"

definition initial_chars :: nat where
  "initial_chars = command_chars [''grep'', ''-q'', ''pruna_pro'']"

definition line_max :: nat where
  "line_max = arg_max - initial_chars - 1"

datatype xargs_state = Space | Norm | Quote char | Backslash

fun xargs_read :: "xargs_state \<Rightarrow> string \<Rightarrow> string \<Rightarrow> string list \<times> bool" where
  "xargs_read st cur [] =
     (if cur = [] then ([], True)
      else case st of Quote q \<Rightarrow> ([], False) | _ \<Rightarrow> ([cur], True))"
| "xargs_read Backslash cur (c # cs) =
     (if line_max \<le> length cur then ([], False) else xargs_read Norm (cur @ [c]) cs)"
| "xargs_read (Quote q) cur (c # cs) =
     (if c = nl then ([], False)
      else if c = q then xargs_read Norm cur cs
      else if line_max \<le> length cur then ([], False)
      else xargs_read (Quote q) (cur @ [c]) cs)"
| "xargs_read st cur (c # cs) =
     (if st = Space \<and> xargs_space c then xargs_read Space cur cs
      else if c = nl \<or> xargs_blank c
        then (case xargs_read Space [] cs of (as, ok) \<Rightarrow> (cur # as, ok))
      else if c = backslash then xargs_read Backslash cur cs
      else if c = CHR 0x22 \<or> c = CHR 0x27 then xargs_read (Quote c) cur cs
      else if line_max \<le> length cur then ([], False)
      else xargs_read Norm (cur @ [c]) cs)"

text \<open>
  xargs appends the arguments to the command until the next one would not fit the buffer;
  then it runs the command and starts again from the initial words. \<open>used\<close> is the size
  of the command line so far and \<open>cur\<close> its arguments. An argument that does not fit an
  empty command line is an error.
\<close>

fun xargs_batches :: "nat \<Rightarrow> string list \<Rightarrow> string list \<Rightarrow> string list list \<times> bool" where
  "xargs_batches used cur [] = (if cur = [] then [] else [cur], True)"
| "xargs_batches used cur (a # as) =
     (if arg_max < used + (length a + 1)
      then (if cur = [] then ([], False)
            else case xargs_batches (initial_chars + (length a + 1)) [a] as of
                   (bs, ok) \<Rightarrow> (cur # bs, ok))
      else xargs_batches (used + (length a + 1)) (cur @ [a]) as)"

text \<open>
  The argument lists of the runs of the command on an input, and whether xargs read and
  placed all of it. After an error xargs still runs the command on the arguments it
  holds, if any. Input without any argument gives one run without arguments.
\<close>

definition xargs_runs :: "string \<Rightarrow> string list list \<times> bool" where
  "xargs_runs input =
     (case xargs_read Space [] input of
        (args, read_ok) \<Rightarrow>
          (case xargs_batches initial_chars [] args of
             (bs, fit_ok) \<Rightarrow>
               (if read_ok \<and> fit_ok \<and> bs = [] then [[]] else bs, read_ok \<and> fit_ok)))"

text \<open>
  The arguments of grep are the names of files (no path under \<^verbatim>\<open>src/\<close> begins with the
  dash of an option).
\<close>

definition file_matches :: "worktree \<Rightarrow> string \<Rightarrow> string \<Rightarrow> bool" where
  "file_matches wt pat f = (case wt f of None \<Rightarrow> False | Some ls \<Rightarrow> list_ex (contains_str pat) ls)"

text \<open>
  \<^verbatim>\<open>grep -q pat files\<close>: status 0 when a line of one of the files matches, else 2 when a
  file could not be read, else 1. With no file it reads its standard input, which under
  xargs is empty: status 1.
\<close>

definition grep_q :: "worktree \<Rightarrow> string \<Rightarrow> string list \<Rightarrow> nat" where
  "grep_q wt pat fs =
     (if list_ex (file_matches wt pat) fs then 0
      else if list_ex (\<lambda>f. wt f = None) fs then 2
      else 1)"

text \<open>
  xargs' status from the statuses of its runs: 124 when a run exits 255, else 123 when a
  run exits with another status than 0, else 1 after an error of its own, else 0.
\<close>

definition xargs_status :: "bool \<Rightarrow> nat list \<Rightarrow> nat" where
  "xargs_status ok rs =
     (if 255 \<in> set rs then 124
      else if list_ex (\<lambda>r. r \<noteq> 0) rs then 123
      else if ok then 0
      else 1)"

text \<open>awk writes each line with a newline after it; that text is the input of xargs.\<close>

definition xargs_input :: "string list \<Rightarrow> string" where
  "xargs_input ls = concat (map (\<lambda>l. l @ [nl]) ls)"

text \<open>The argument lists of the grep runs for a staged change set.\<close>

definition grep_runs :: "staged list \<Rightarrow> string list list \<times> bool" where
  "grep_runs es = xargs_runs (xargs_input (awk_prog (git_diff_cached_name_status es)))"

text \<open>
  The pipeline's status is the status of its last command, xargs. The list
  \<^verbatim>\<open>P && { echo ...; exit 1; } || exit 0\<close> exits 1 when \<open>P\<close> has status 0 and exits 0
  otherwise.
\<close>

definition pipeline_status :: "worktree \<Rightarrow> staged list \<Rightarrow> nat" where
  "pipeline_status wt es =
     (case grep_runs es of (runs, ok) \<Rightarrow> xargs_status ok (map (grep_q wt ''pruna_pro'') runs))"

definition check_pruna_pro_entry :: "worktree \<Rightarrow> staged list \<Rightarrow> nat" where
  "check_pruna_pro_entry wt es = (if pipeline_status wt es = 0 then 1 else 0)"

section \<open>The pre-commit configuration\<close>

record hook =
  hook_id :: string
  hook_name :: "string option"
  language :: "string option"
  stages :: "string list"
  types :: "string list"
  files :: string
  exclude :: string
  additional_dependencies :: "string list"

record repo =
  repo_url :: string
  repo_rev :: "string option"
  hooks :: "hook list"

text \<open>pre-commit's defaults: \<open>files\<close> is the empty pattern, \<open>exclude\<close> is \<^verbatim>\<open>^$\<close>.\<close>

definition ruff_hook :: hook where
  "ruff_hook = \<lparr> hook_id = ''ruff'', hook_name = None, language = None, stages = [],
                 types = [], files = '''', exclude = ''^$'', additional_dependencies = [] \<rparr>"

definition mypy_hook :: hook where
  "mypy_hook = \<lparr> hook_id = ''mypy'', hook_name = None, language = None, stages = [],
                 types = [], files = '''', exclude = ''tests/'',
                 additional_dependencies = [''types-pyyaml''] \<rparr>"

definition check_pruna_pro :: hook where
  "check_pruna_pro = \<lparr> hook_id = ''check-pruna-pro'', hook_name = Some ''Check for pruna_pro'',
                       language = Some ''system'', stages = [''pre-commit''],
                       types = [''text''], files = ''^src/'', exclude = ''^$'',
                       additional_dependencies = [] \<rparr>"

definition pre_commit_config :: "repo list" where
  "pre_commit_config =
     [ \<lparr> repo_url = ''https://github.com/astral-sh/ruff-pre-commit'', repo_rev = Some ''v0.11.2'',
         hooks = [ruff_hook] \<rparr>,
       \<lparr> repo_url = ''https://github.com/pre-commit/mirrors-mypy'', repo_rev = Some ''v1.15.0'',
         hooks = [mypy_hook] \<rparr>,
       \<lparr> repo_url = ''local'', repo_rev = None, hooks = [check_pruna_pro] \<rparr> ]"

text \<open>
  pre-commit searches the \<open>files\<close> and \<open>exclude\<close> patterns of a hook in a path. The
  patterns of this configuration are a literal, anchored at the start when it begins
  with \<^verbatim>\<open>^\<close> and at the end when it ends with \<^verbatim>\<open>$\<close>.
\<close>

definition re_search :: "string \<Rightarrow> string \<Rightarrow> bool" where
  "re_search pat s =
     (let from_start = starts_with ''^'' pat;
          p = (if from_start then tl pat else pat);
          to_end = (p \<noteq> [] \<and> last p = CHR ''$'');
          lit = (if to_end then butlast p else p)
      in if from_start \<and> to_end then s = lit
         else if from_start then starts_with lit s
         else if to_end then starts_with (rev lit) (rev s)
         else contains_str lit s)"

text \<open>
  The file names pre-commit hands to a hook at commit time: the staged paths that are not
  deletions (\<^verbatim>\<open>--diff-filter=ACMRTUXB\<close>), exist in the working tree, match \<open>files\<close>, do
  not match \<open>exclude\<close> and carry every tag of \<open>types\<close>.
\<close>

definition matches_filter :: "hook \<Rightarrow> staged \<Rightarrow> bool" where
  "matches_filter h e =
     (re_search (files h) (path e) \<and> \<not> re_search (exclude h) (path e) \<and>
      list_all (\<lambda>t. t \<in> set (tags e)) (types h))"

definition hook_filenames :: "hook \<Rightarrow> worktree \<Rightarrow> staged list \<Rightarrow> string list" where
  "hook_filenames h wt es =
     map path (filter (\<lambda>e. status e \<noteq> Deleted \<and> wt (path e) \<noteq> None \<and> matches_filter h e) es)"

text \<open>
  pre-commit skips a hook that has no file name to check, with return code 0; otherwise it
  runs the entry. The entry of check-pruna-pro ignores the file names appended to its
  command line and lists the staged paths itself.
\<close>

definition run_check_pruna_pro :: "worktree \<Rightarrow> staged list \<Rightarrow> nat" where
  "run_check_pruna_pro wt es =
     (if hook_filenames check_pruna_pro wt es = [] then 0 else check_pruna_pro_entry wt es)"

text \<open>Whether a line of the staged diff contains the pattern.\<close>

definition staged_diff_contains :: "string \<Rightarrow> staged list \<Rightarrow> bool" where
  "staged_diff_contains pat es = list_ex (\<lambda>e. list_ex (contains_str pat) (diff_lines e)) es"

text \<open>
  What awk prints for an entry with plain paths: the second field of its line, which is the
  old path of a rename or a copy and the path of any other entry.
\<close>

definition listed_path :: "staged \<Rightarrow> string" where
  "listed_path e = (if two_paths (status e) then old_path e else path e)"

text \<open>Whether a list of arguments fits one run of grep.\<close>

definition fits_one_run :: "string list \<Rightarrow> bool" where
  "fits_one_run args = (initial_chars + command_chars args \<le> arg_max)"

definition no_blank :: "string \<Rightarrow> bool" where
  "no_blank w = list_all (\<lambda>c. \<not> is_blank c) w"

definition plain_entry :: "staged \<Rightarrow> bool" where
  "plain_entry e =
     (plain_path (path e) \<and> (if two_paths (status e) then plain_path (old_path e) else True))"

section \<open>The CI workflow\<close>

text \<open>
  A step either uses an action or runs the lines of a shell script (\<open>dq\<close> is the double
  quote in a command).
\<close>

datatype action = Uses string | Run "string list"

record step =
  step_name :: string
  action :: action
  with_args :: "(string \<times> string) list"

record job =
  runs_on :: string
  matrix :: "(string \<times> string list) list"
  steps :: "step list"

record workflow =
  workflow_name :: string
  on_events :: "(string \<times> string list) list"
  jobs :: "(string \<times> job) list"

definition linting :: job where
  "linting =
     \<lparr> runs_on = ''ubuntu-22.04'',
       matrix = [(''python-version'', [''3.10''])],
       steps =
         [ \<lparr> step_name = ''Checkout code'', action = Uses ''actions/checkout@v3'', with_args = [] \<rparr>,
           \<lparr> step_name = ''Set up Python'', action = Uses ''actions/setup-python@v3'',
             with_args = [(''python-version'', ''${{ matrix.python-version }}'')] \<rparr>,
           \<lparr> step_name = ''Install Poetry'',
             action = Run [ ''curl -sSL https://install.python-poetry.org | python3 -'',
                            ''echo '' @ dq @ ''${HOME}/.local/bin'' @ dq @ '' >> $GITHUB_PATH'' ],
             with_args = [] \<rparr>,
           \<lparr> step_name = ''Configure Poetry to not create virtual environments'',
             action = Run [''poetry config virtualenvs.create false''], with_args = [] \<rparr>,
           \<lparr> step_name = ''Run ruff on Pruna code'', action = Uses ''astral-sh/ruff-action@v3'',
             with_args = [] \<rparr>,
           \<lparr> step_name = ''Install dependencies'', action = Run [''pip install -e .[tests]''],
             with_args = [] \<rparr>,
           \<lparr> step_name = ''Remove .so files'',
             action = Run [''find . -name '' @ dq @ ''*.so'' @ dq @ '' -delete''], with_args = [] \<rparr>,
           \<lparr> step_name = ''Run mypy on Pruna code'',
             action = Run [''mypy --show-traceback src/pruna''], with_args = [] \<rparr>,
           \<lparr> step_name = ''Run docstrings on Pruna code'',
             action = Run [''pytest -m '' @ dq @ ''style'' @ dq], with_args = [] \<rparr> ] \<rparr>"

definition code_quality_checks :: workflow where
  "code_quality_checks =
     \<lparr> workflow_name = ''Code Quality Checks'',
       on_events = [(''pull_request'', [''main''])],
       jobs = [(''linting'', linting)] \<rparr>"

text \<open>
  The workflow runs for an event on a base branch when the event is listed and the branch
  is one of its \<open>branches\<close> (the one pattern here, \<open>main\<close>, is a literal).
\<close>

definition triggered_by :: "workflow \<Rightarrow> string \<Rightarrow> string \<Rightarrow> bool" where
  "triggered_by w ev branch = list_ex (\<lambda>(e, bs). e = ev \<and> branch \<in> set bs) (on_events w)"

text \<open>\<open>in_order xs ys\<close>: the elements of \<open>xs\<close> occur in \<open>ys\<close>, in the order of \<open>xs\<close>.\<close>

fun in_order :: "'a list \<Rightarrow> 'a list \<Rightarrow> bool" where
  "in_order [] ys = True"
| "in_order (x # xs) [] = False"
| "in_order (x # xs) (y # ys) = (if x = y then in_order xs ys else in_order (x # xs) ys)"

text \<open>The text of a step in which a tool can be named: the action used, or the commands run.\<close>

fun step_text :: "action \<Rightarrow> string list" where
  "step_text (Uses a) = [a]"
| "step_text (Run ls) = ls"

text \<open>
  The CI job invokes a tool when a step names it in its action or commands; the
  pre-commit configuration invokes a tool when a hook has it as its id.
\<close>

definition ci_invokes :: "string \<Rightarrow> bool" where
  "ci_invokes t = list_ex (\<lambda>s. list_ex (contains_str t) (step_text (action s))) (steps linting)"

definition pre_commit_hooks :: "hook list" where
  "pre_commit_hooks = concat (map hooks pre_commit_config)"

definition pre_commit_invokes :: "string \<Rightarrow> bool" where
  "pre_commit_invokes t = list_ex (\<lambda>h. hook_id h = t) pre_commit_hooks"

text \<open>The linter and the type checker the specification speaks of.\<close>

definition lint_type_tools :: "string list" where
  "lint_type_tools = [''ruff'', ''mypy'']"

section \<open>The dependency manifest\<close>

text \<open>
  The Poetry tables of the manifest. A dependency has one requirement, or several told
  apart by their markers; a requirement written as a bare string is its version with the
  other fields at their defaults. An extra names the optional packages it installs.
\<close>

datatype marker = SysPlatform string | Extra string | MarkerOr marker marker

record requirement =
  version :: string
  optional :: bool
  markers :: "marker option"
  with_extras :: "string list"

record manifest =
  package_name :: string
  package_version :: string
  dependencies :: "(string \<times> requirement list) list"
  extras :: "(string \<times> string list) list"

definition required :: "string \<Rightarrow> requirement list" where
  "required v = [\<lparr> version = v, optional = False, markers = None, with_extras = [] \<rparr>]"

definition opt :: "string \<Rightarrow> requirement list" where
  "opt v = [\<lparr> version = v, optional = True, markers = None, with_extras = [] \<rparr>]"

definition pyproject :: manifest where
  "pyproject =
     \<lparr> package_name = ''pruna'',
       package_version = ''0.2.0.post1'',
       dependencies =
         [ (''python'', required ''>=3.8''),
           (''wget'', required ''*''),
           (''torch'', required ''2.5.1''),
           (''torchvision'', required ''0.20.1''),
           (''torchmetrics'',
              [\<lparr> version = ''*'', optional = False, markers = None, with_extras = [''image''] \<rparr>]),
           (''requests'', required ''>=2.31.0''),
           (''transformers'', required ''*''),
           (''pillow'', required ''>=9.5.0''),
           (''pytorch-lightning'', required ''*''),
           (''huggingface-hub'', required ''>=0.27.0''),
           (''jsonschema'', required ''*''),
           (''numpy'', required ''>=1.24.4''),
           (''setuptools'', required ''*''),
           (''packaging'', required ''*''),
           (''diffusers'', required ''>=0.21.4''),
           (''platformdirs'', required ''*''),
           (''torch_pruning'', required ''*''),
           (''python-dotenv'', required ''*''),
           (''ConfigSpace'', required ''*''),
           (''cython'', required ''*''),
           (''lago-python-client'', required ''*''),
           (''sentencepiece'', required ''*''),
           (''blobfile'', required ''*''),
           (''librosa'', required ''*''),
           (''openvino'', required ''*''),
           (''soundfile'', required ''*''),
           (''ipywidgets'', required ''>=8.1.5''),
           (''DeepCache'', required ''*''),
           (''colorama'', required ''*''),
           (''protobuf'', required ''*''),
           (''peft'', required ''*''),
           (''optuna'', required ''*''),
           (''trl'', required ''*''),
           (''opentelemetry-api'', required ''>=1.30.0''),
           (''opentelemetry-sdk'', required ''>=1.30.0''),
           (''opentelemetry-exporter-otlp'', required ''>=1.29.0''),
           (''codecarbon'', required ''*''),
           (''pynvml'', required ''*''),
           (''thop'', required ''*''),
           (''timm'', required ''*''),
           (''bitsandbytes'', required ''*''),
           (''optimum-quanto'', required ''>=0.2.5''),
           (''optimum'', required ''*''),
           (''ctranslate2'', required ''==4.5.0''),
           (''whisper-s2t'', required ''==1.3.0''),
           (''hqq'', required ''*''),
           (''auto-gptq'',
              [\<lparr> version = ''*'', optional = False, markers = Some (SysPlatform ''linux''),
                 with_extras = [] \<rparr>]),
           (''torchao'', required ''*''),
           (''nexfort'', opt ''0.1.dev275''),
           (''ruff'', opt ''*''),
           (''onediff'', opt ''*''),
           (''autoawq'', opt ''*''),
           (''jupyterlab'', opt ''*''),
           (''notebook'', opt ''*''),
           (''pre-commit'', opt ''*''),
           (''build'', opt ''*''),
           (''twine'', opt ''*''),
           (''pyc-wheel'', opt ''*''),
           (''pytest-cov'', opt ''*''),
           (''coverage'', opt ''*''),
           (''pytest'', opt ''7.4.4''),
           (''docutils'', opt ''*''),
           (''xformers'', opt ''==0.0.29.post1''),
           (''stable-fast-pruna'',
              [\<lparr> version = ''1.0.6'', optional = True,
                 markers = Some (MarkerOr (Extra ''stable-fast'') (Extra ''full'')), with_extras = [] \<rparr>,
               \<lparr> version = ''1.0.6+torch251cu118'', optional = True,
                 markers = Some (Extra ''stable-fast-cu11''), with_extras = [] \<rparr>]),
           (''numpydoc-validation'', opt ''*''),
           (''mypy'', opt ''*''),
           (''types-PyYAML'', opt ''*'') ],
       extras =
         [ (''stable-fast'', [''xformers'', ''stable-fast-pruna'']),
           (''stable-fast-cu11'', [''xformers'', ''stable-fast-pruna'']),
           (''onediff'', [''onediff'', ''nexfort'']),
           (''autoawq'', [''autoawq'']),
           (''full'', [''autoawq'', ''xformers'', ''stable-fast-pruna'', ''autoawq'', ''onediff'', ''nexfort'']),
           (''dev'', [''jupyterlab'', ''notebook'', ''pre-commit'', ''build'', ''twine'', ''pyc-wheel'',
                      ''ruff'', ''numpydoc-validation'']),
           (''tests'', [''pytest'', ''pytest-cov'', ''coverage'', ''docutils'', ''jupyterlab'',
                        ''numpydoc-validation'', ''mypy'', ''ruff'', ''types-PyYAML'']),
           (''cpu'', []) ] \<rparr>"

text \<open>A package is optional when the manifest declares it and each of its requirements is.\<close>

definition is_optional :: "manifest \<Rightarrow> string \<Rightarrow> bool" where
  "is_optional m p =
     (case map_of (dependencies m) p of None \<Rightarrow> False | Some rs \<Rightarrow> rs \<noteq> [] \<and> list_all optional rs)"

definition optional_packages :: "manifest \<Rightarrow> string list" where
  "optional_packages m = filter (is_optional m) (map fst (dependencies m))"

text \<open>The packages of an extra; none for a name the manifest does not declare.\<close>

definition extra_packages :: "manifest \<Rightarrow> string \<Rightarrow> string list" where
  "extra_packages m n = (case map_of (extras m) n of None \<Rightarrow> [] | Some ps \<Rightarrow> ps)"

definition declares_extra :: "manifest \<Rightarrow> string \<Rightarrow> bool" where
  "declares_extra m n = (map_of (extras m) n \<noteq> None)"

definition in_some_extra :: "manifest \<Rightarrow> string \<Rightarrow> bool" where
  "in_some_extra m p = list_ex (\<lambda>(n, ps). p \<in> set ps) (extras m)"

section \<open>The tutorial notebooks\<close>

text \<open>
  The code cells of a notebook are Python. Expressions and statements follow Python's
  \<open>ast\<close> module: a call has a function, positional arguments and keywords, and a keyword
  without a name is a \<^verbatim>\<open>**\<close> argument. A line starting with \<^verbatim>\<open>!\<close> is a shell command
  of the notebook. Comments are not part of the tree.
\<close>

datatype const = CStr string | CInt int | CBool bool

datatype expr =
    Name string
  | Constant const
  | Attribute expr string
  | Subscript expr expr
  | Call expr "expr list" "(string option \<times> expr) list"
  | IfExp expr expr expr

datatype stmt =
    Import string
  | ImportFrom string "string list"
  | Assign expr expr
  | Expr expr
  | Shell string

record notebook =
  title :: string
  code_cells :: "stmt list list"

abbreviation Str :: "string \<Rightarrow> expr" where
  "Str s \<equiv> Constant (CStr s)"

primrec calls :: "expr \<Rightarrow> expr list" where
  "calls (Name n) = []"
| "calls (Constant c) = []"
| "calls (Attribute e a) = calls e"
| "calls (Subscript e i) = calls e @ calls i"
| "calls (Call f as kws) =
     Call f as kws # calls f @ concat (map calls as) @ concat (map snd (map (map_prod id calls) kws))"
| "calls (IfExp t b e) = calls t @ calls b @ calls e"

fun stmt_calls :: "stmt \<Rightarrow> expr list" where
  "stmt_calls (Assign t v) = calls t @ calls v"
| "stmt_calls (Expr e) = calls e"
| "stmt_calls s = []"

definition smash_assignment :: stmt where
  "smash_assignment =
     Assign (Name ''smashed_model'')
       (Call (Name ''smash'') []
          [(Some ''model'', Name ''model''), (Some ''smash_config'', Name ''smash_config'')])"

definition llms :: notebook where
  "llms =
     \<lparr> title = ''Making your LLMs 4x smaller'',
       code_cells =
         [ [ Shell ''pip install pruna'' ],
           [ ImportFrom ''transformers'' [''AutoModelForCausalLM'', ''AutoTokenizer''],
             Assign (Name ''model_id'') (Str ''facebook/opt-125m''),
             Assign (Name ''model'')
               (Call (Attribute
                        (Call (Attribute (Name ''AutoModelForCausalLM'') ''from_pretrained'')
                           [Name ''model_id''] [(Some ''torch_dtype'', Str ''auto'')])
                        ''cuda'') [] []),
             Assign (Name ''text'') (Str ''The 45th president of the United States of America is''),
             Assign (Name ''tokenizer'')
               (Call (Attribute (Name ''AutoTokenizer'') ''from_pretrained'') [Name ''model_id''] []),
             Assign (Name ''ins'')
               (Call (Attribute
                        (Call (Name ''tokenizer'') [Name ''text''] [(Some ''return_tensors'', Str ''pt'')])
                        ''to'') [Str ''cuda''] []) ],
           [ ImportFrom ''pruna'' [''SmashConfig''],
             Assign (Name ''smash_config'') (Call (Name ''SmashConfig'') [] []),
             Expr (Call (Attribute (Name ''smash_config'') ''add_tokenizer'') [Name ''model_id''] []),
             Expr (Call (Attribute (Name ''smash_config'') ''add_data'') [Str ''WikiText''] []),
             Assign (Subscript (Name ''smash_config'') (Str ''quantizer'')) (Str ''gptq'') ],
           [ ImportFrom ''pruna'' [''smash''],
             smash_assignment ],
           [ Expr (Call (Attribute (Name ''tokenizer'') ''batch_decode'')
                     [Call (Attribute (Name ''smashed_model'') ''generate'') [] [(None, Name ''ins'')]]
                     []) ] ] \<rparr>"

definition cuda_is_available :: expr where
  "cuda_is_available = Call (Attribute (Attribute (Name ''torch'') ''cuda'') ''is_available'') [] []"

definition asr_whisper :: notebook where
  "asr_whisper =
     \<lparr> title = ''100% faster Whisper Transcription'',
       code_cells =
         [ [ Shell ''pip install pruna'' ],
           [ Import ''torch'',
             ImportFrom ''transformers'' [''AutoModelForSpeechSeq2Seq''],
             Assign (Name ''device'') (IfExp cuda_is_available (Str ''cuda:0'') (Str ''cpu'')),
             Assign (Name ''torch_dtype'')
               (IfExp cuda_is_available (Attribute (Name ''torch'') ''float16'')
                  (Attribute (Name ''torch'') ''float32'')),
             Assign (Name ''model_id'') (Str ''openai/whisper-large-v3''),
             Assign (Name ''model'')
               (Call (Attribute (Name ''AutoModelForSpeechSeq2Seq'') ''from_pretrained'')
                  [Name ''model_id'']
                  [(Some ''torch_dtype'', Name ''torch_dtype''),
                   (Some ''low_cpu_mem_usage'', Constant (CBool True)),
                   (Some ''use_safetensors'', Constant (CBool True))]),
             Expr (Call (Attribute (Name ''model'') ''to'') [Name ''device''] []) ],
           [ ImportFrom ''pruna'' [''SmashConfig''],
             Assign (Name ''smash_config'') (Call (Name ''SmashConfig'') [] []),
             Expr (Call (Attribute (Name ''smash_config'') ''add_processor'') [Name ''model_id''] []),
             Assign (Subscript (Name ''smash_config'') (Str ''compiler'')) (Str ''c_whisper'') ],
           [ ImportFrom ''pruna'' [''smash''],
             smash_assignment ],
           [ ImportFrom ''datasets'' [''load_dataset''],
             ImportFrom ''transformers'' [''AutoProcessor''],
             Assign (Name ''processor'')
               (Call (Attribute (Name ''AutoProcessor'') ''from_pretrained'') [Name ''model_id''] []),
             Assign (Name ''dataset'')
               (Call (Name ''load_dataset'') [Str ''distil-whisper/librispeech_long'', Str ''clean'']
                  [(Some ''split'', Str ''validation'')]),
             Assign (Name ''sample'')
               (Subscript (Subscript (Name ''dataset'') (Constant (CInt 0))) (Str ''audio'')),
             Assign (Name ''input_features'')
               (Attribute
                  (Call (Name ''processor'') [Subscript (Name ''sample'') (Str ''array'')]
                     [(Some ''sampling_rate'', Subscript (Name ''sample'') (Str ''sampling_rate'')),
                      (Some ''return_tensors'', Str ''pt'')])
                  ''input_features''),
             Assign (Name ''input_features'')
               (Call (Attribute (Call (Attribute (Name ''input_features'') ''cuda'') [] []) ''half'')
                  [] []) ],
           [ Assign (Name ''results'') (Call (Name ''smashed_model'') [Name ''input_features''] []),
             Expr (Call (Attribute (Name ''processor'') ''decode'') [Name ''results'']
                     [(Some ''skip_special_tokens'', Constant (CBool False))]) ] ] \<rparr>"

definition tutorial_notebooks :: "notebook list" where
  "tutorial_notebooks = [llms, asr_whisper]"

text \<open>The statements of a notebook in the order of its cells.\<close>

definition program :: "notebook \<Rightarrow> stmt list" where
  "program nb = concat (code_cells nb)"

text \<open>
  The first statement that \<open>f\<close> recognises, with what \<open>f\<close> read from it and the statements
  after it.
\<close>

fun find_after :: "('a \<Rightarrow> 'b option) \<Rightarrow> 'a list \<Rightarrow> ('b \<times> 'a list) option" where
  "find_after f [] = None"
| "find_after f (x # xs) = (case f x of Some y \<Rightarrow> Some (y, xs) | None \<Rightarrow> find_after f xs)"

text \<open>\<^verbatim>\<open>v = SmashConfig()\<close>: the variable that holds the configuration.\<close>

fun config_ctor :: "stmt \<Rightarrow> string option" where
  "config_ctor (Assign (Name v) (Call (Name f) [] [])) = (if f = ''SmashConfig'' then Some v else None)"
| "config_ctor s = None"

text \<open>\<^verbatim>\<open>v['key'] = value\<close>: the key.\<close>

fun key_assign :: "string \<Rightarrow> stmt \<Rightarrow> string option" where
  "key_assign v (Assign (Subscript (Name w) (Constant (CStr k))) e) = (if w = v then Some k else None)"
| "key_assign v s = None"

text \<open>\<^verbatim>\<open>r = smash(...)\<close>: the variable, the positional arguments and the keywords.\<close>

fun smash_call :: "stmt \<Rightarrow> (string \<times> expr list \<times> (string option \<times> expr) list) option" where
  "smash_call (Assign (Name r) (Call (Name f) as kws)) = (if f = ''smash'' then Some (r, as, kws) else None)"
| "smash_call s = None"

text \<open>A call of the object \<open>r\<close> or of one of its methods.\<close>

fun invokes :: "string \<Rightarrow> expr \<Rightarrow> bool" where
  "invokes r (Call (Name f) as kws) = (f = r)"
| "invokes r (Call (Attribute (Name f) m) as kws) = (f = r)"
| "invokes r e = False"

definition call_shape :: "stmt list \<Rightarrow> bool" where
  "call_shape ss =
     (case find_after config_ctor ss of
        None \<Rightarrow> False
      | Some (cfg, after_ctor) \<Rightarrow>
          (case find_after (key_assign cfg) after_ctor of
             None \<Rightarrow> False
           | Some (k, after_key) \<Rightarrow>
               (case find_after smash_call after_key of
                  None \<Rightarrow> False
                | Some ((r, as, kws), after_smash) \<Rightarrow>
                    as = [] \<and> kws = [(Some ''model'', Name ''model''), (Some ''smash_config'', Name cfg)] \<and>
                    list_ex (\<lambda>s. list_ex (invokes r) (stmt_calls s)) after_smash)))"

text \<open>The keywords of every call of \<open>smash\<close> in a notebook, and the option keys it sets.\<close>

fun keywords_of_smash :: "expr \<Rightarrow> (expr list \<times> string option list) option" where
  "keywords_of_smash (Call (Name f) as kws) = (if f = ''smash'' then Some (as, map fst kws) else None)"
| "keywords_of_smash e = None"

definition smash_calls :: "notebook \<Rightarrow> (expr list \<times> string option list) list" where
  "smash_calls nb = List.map_filter keywords_of_smash (concat (map stmt_calls (program nb)))"

definition option_keys :: "notebook \<Rightarrow> string list" where
  "option_keys nb = List.map_filter (key_assign ''smash_config'') (program nb)"

definition inference_calls :: "notebook \<Rightarrow> expr list" where
  "inference_calls nb = filter (invokes ''smashed_model'') (concat (map stmt_calls (program nb)))"

section \<open>Properties of the text utilities\<close>

lemma starts_with_iff: "starts_with p s \<longleftrightarrow> (\<exists>r. s = p @ r)"
  by (induction p s rule: starts_with.induct) auto

lemma contains_str_iff: "contains_str p s \<longleftrightarrow> (\<exists>a b. s = a @ p @ b)"
proof (induction s)
  case Nil
  then show ?case by (simp add: starts_with_iff)
next
  case (Cons c cs)
  show ?case
  proof
    assume "contains_str p (c # cs)"
    then consider "starts_with p (c # cs)" | "contains_str p cs" by auto
    then show "\<exists>a b. c # cs = a @ p @ b"
    proof cases
      case 1
      then obtain r where "c # cs = p @ r" by (auto simp: starts_with_iff)
      then have "c # cs = [] @ p @ r" by simp
      then show ?thesis by blast
    next
      case 2
      then obtain a b where "cs = a @ p @ b" using Cons.IH by blast
      then have "c # cs = (c # a) @ p @ b" by simp
      then show ?thesis by blast
    qed
  next
    assume "\<exists>a b. c # cs = a @ p @ b"
    then obtain a b where ab: "c # cs = a @ p @ b" by blast
    show "contains_str p (c # cs)"
    proof (cases a)
      case Nil
      then have "starts_with p (c # cs)" using ab by (simp add: starts_with_iff)
      then show ?thesis by simp
    next
      case (Cons a0 as)
      then have "cs = as @ p @ b" using ab by simp
      then show ?thesis using Cons.IH by auto
    qed
  qed
qed

section \<open>Properties of the pipeline\<close>

lemma fields_from_word: "no_blank w \<Longrightarrow> fields_from cur (w @ rest) = fields_from (cur @ w) rest"
  by (induction w arbitrary: cur) (simp_all add: no_blank_def)

lemma fields_from_tab: "cur \<noteq> [] \<Longrightarrow> fields_from cur (tab # rest) = cur # fields_from [] rest"
  by (simp add: tab_def is_blank_def)

lemma awk_fields_word: "no_blank w \<Longrightarrow> w \<noteq> [] \<Longrightarrow> awk_fields w = [w]"
  using fields_from_word [of w "[]" "[]"] by (simp add: awk_fields_def)

lemma awk_fields_two:
  assumes "no_blank a" "a \<noteq> []" "no_blank b" "b \<noteq> []"
  shows "awk_fields (a @ [tab] @ b) = [a, b]"
proof -
  have "awk_fields (a @ [tab] @ b) = fields_from a (tab # b)"
    using fields_from_word [OF assms(1), of "[]" "tab # b"] by (simp add: awk_fields_def)
  also have "\<dots> = a # fields_from [] b" using assms(2) by (rule fields_from_tab)
  also have "fields_from [] b = [b]" using awk_fields_word [OF assms(3,4)] by (simp add: awk_fields_def)
  finally show ?thesis .
qed

lemma awk_fields_three:
  assumes "no_blank a" "a \<noteq> []" "no_blank b" "b \<noteq> []" "no_blank c" "c \<noteq> []"
  shows "awk_fields (a @ [tab] @ b @ [tab] @ c) = [a, b, c]"
proof -
  have "awk_fields (a @ [tab] @ b @ [tab] @ c) = fields_from a (tab # b @ [tab] @ c)"
    using fields_from_word [OF assms(1), of "[]" "tab # b @ [tab] @ c"] by (simp add: awk_fields_def)
  also have "\<dots> = a # fields_from [] (b @ [tab] @ c)" using assms(2) by (rule fields_from_tab)
  also have "fields_from [] (b @ [tab] @ c) = [b, c]"
    using awk_fields_two [OF assms(3-6)] by (simp add: awk_fields_def)
  finally show ?thesis .
qed

lemma digits_plain: "\<forall>c\<in>set ''0123456789''. plain_char c"
  by (simp add: plain_char_def)

lemma digit_plain: "d < 10 \<Longrightarrow> plain_char (''0123456789'' ! d)"
proof -
  assume "d < 10"
  then have "d < length ''0123456789''" by simp
  then have "''0123456789'' ! d \<in> set ''0123456789''" by (rule nth_mem)
  then show ?thesis using digits_plain by blast
qed

lemma decimal_plain: "list_all plain_char (decimal n)"
proof (induction n rule: decimal.induct)
  case (1 n)
  show ?case
  proof (cases "n < 10")
    case True
    then show ?thesis using digit_plain [of n] by (simp add: decimal.simps [of n])
  next
    case False
    have "n mod 10 < 10" by simp
    then have "plain_char (''0123456789'' ! (n mod 10))" by (rule digit_plain)
    then show ?thesis using False 1 by (simp add: decimal.simps [of n])
  qed
qed

lemma decimal_nonempty: "decimal n \<noteq> []"
  by (simp add: decimal.simps [of n])

lemma zeros_plain: "list_all plain_char (replicate k (CHR ''0''))"
  by (induction k) (simp_all add: plain_char_def)

lemma pad3_plain: "list_all plain_char (pad3 n)"
  using decimal_plain [of n] zeros_plain by (simp add: pad3_def)

lemma pad3_nonempty: "pad3 n \<noteq> []"
  using decimal_nonempty by (simp add: pad3_def)

lemma plain_char_no_blank: "plain_char c \<Longrightarrow> \<not> is_blank c"
  by (auto simp: plain_char_def is_blank_def)

lemma plain_chars_no_blank: "list_all plain_char w \<Longrightarrow> no_blank w"
  using plain_char_no_blank by (auto simp: no_blank_def list_all_iff)

lemma status_field_no_blank: "no_blank (status_field s)"
  using plain_chars_no_blank [OF pad3_plain] by (cases s) (simp_all add: no_blank_def is_blank_def)

lemma status_field_nonempty: "status_field s \<noteq> []"
  by (cases s) simp_all

lemma status_field_D: "status_field s = ''D'' \<longleftrightarrow> s = Deleted"
  by (cases s) simp_all

lemma plain_no_blank: "plain_path p \<Longrightarrow> no_blank p \<and> p \<noteq> []"
  using plain_chars_no_blank by (simp add: plain_path_def)

lemma plain_char_not_escaped: "plain_char c \<Longrightarrow> cq_escape c = None"
  by (simp add: plain_char_def cq_escape_def Let_def)

lemma c_quote_plain: "plain_path p \<Longrightarrow> c_quote p = p"
  using plain_char_not_escaped by (auto simp: c_quote_def plain_path_def list_all_iff list_ex_iff)

lemma awk_fields_line:
  assumes "plain_entry e"
  shows "awk_fields (name_status_line e) =
           (if two_paths (status e) then [status_field (status e), old_path e, path e]
            else [status_field (status e), path e])"
proof (cases "two_paths (status e)")
  case True
  then have pl: "plain_path (path e)" "plain_path (old_path e)"
    using assms by (simp_all add: plain_entry_def)
  then have p: "no_blank (path e)" "path e \<noteq> []" "no_blank (old_path e)" "old_path e \<noteq> []"
    using plain_no_blank by blast+
  show ?thesis
    using True awk_fields_three [OF status_field_no_blank status_field_nonempty p(3,4,1,2)]
    by (simp add: name_status_line_def c_quote_plain [OF pl(1)] c_quote_plain [OF pl(2)])
next
  case False
  then have pl: "plain_path (path e)"
    using assms by (simp add: plain_entry_def)
  then have p: "no_blank (path e)" "path e \<noteq> []"
    using plain_no_blank by blast+
  show ?thesis
    using False awk_fields_two [OF status_field_no_blank status_field_nonempty p]
    by (simp add: name_status_line_def c_quote_plain [OF pl])
qed

lemma awk_line_fields:
  assumes "plain_entry e"
  shows "awk_field 1 (awk_fields (name_status_line e)) = status_field (status e)"
    and "awk_field 2 (awk_fields (name_status_line e)) = listed_path e"
  using awk_fields_line [OF assms] by (simp_all add: awk_field_def listed_path_def)

lemma awk_prog_plain:
  "list_all plain_entry es \<Longrightarrow>
   awk_prog (git_diff_cached_name_status es) = map listed_path (filter (\<lambda>e. status e \<noteq> Deleted) es)"
proof (induction es)
  case Nil
  then show ?case by (simp add: awk_prog_def git_diff_cached_name_status_def)
next
  case (Cons e es)
  then have e: "plain_entry e" and es: "list_all plain_entry es" by simp_all
  have ih: "awk_prog (git_diff_cached_name_status es) = map listed_path (filter (\<lambda>e. status e \<noteq> Deleted) es)"
    using Cons.IH es by simp
  show ?case
    using ih awk_line_fields [OF e]
    by (simp add: awk_prog_def git_diff_cached_name_status_def status_field_D)
qed

lemma listed_path_plain: "plain_entry e \<Longrightarrow> plain_path (listed_path e)"
  by (auto simp: plain_entry_def listed_path_def split: if_splits)

section \<open>xargs on plain arguments\<close>

lemma line_max_value: "line_max = 131053"
  by (simp add: line_max_def arg_max_def initial_chars_def command_chars_def)

lemma initial_chars_value: "initial_chars = 18"
  by (simp add: initial_chars_def command_chars_def)

lemma plain_char_ordinary:
  assumes "plain_char c"
  shows "\<not> xargs_space c" "\<not> xargs_blank c" "c \<noteq> nl" "c \<noteq> backslash" "c \<noteq> CHR 0x22" "c \<noteq> CHR 0x27"
  using assms by (auto simp: plain_char_def xargs_space_def xargs_blank_def nl_def backslash_def)

lemma xargs_read_norm_char:
  assumes "plain_char c" "length cur < line_max"
  shows "xargs_read Norm cur (c # cs) = xargs_read Norm (cur @ [c]) cs"
  using plain_char_ordinary [OF assms(1)] assms(2) by simp

lemma xargs_read_space_char:
  assumes "plain_char c"
  shows "xargs_read Space [] (c # cs) = xargs_read Norm [c] cs"
  using plain_char_ordinary [OF assms(1)] by (simp add: line_max_value)

lemma xargs_read_word:
  "list_all plain_char w \<Longrightarrow> length (cur @ w) \<le> line_max \<Longrightarrow>
   xargs_read Norm cur (w @ rest) = xargs_read Norm (cur @ w) rest"
proof (induction w arbitrary: cur)
  case Nil
  then show ?case by simp
next
  case (Cons c w)
  then have c: "plain_char c" and w: "list_all plain_char w" by simp_all
  have len: "length cur < line_max" using Cons.prems(2) by simp
  have "xargs_read Norm cur ((c # w) @ rest) = xargs_read Norm (cur @ [c]) (w @ rest)"
    using xargs_read_norm_char [OF c len] by simp
  also have "\<dots> = xargs_read Norm ((cur @ [c]) @ w) rest"
    using Cons.IH [OF w, of "cur @ [c]"] Cons.prems(2) by simp
  finally show ?case by simp
qed

lemma xargs_read_norm_nl:
  "xargs_read Norm cur (nl # rest) = (case xargs_read Space [] rest of (as, ok) \<Rightarrow> (cur # as, ok))"
  by simp

lemma xargs_read_line:
  assumes "plain_path w" "length w \<le> line_max"
  shows "xargs_read Space [] (w @ nl # rest) =
           (case xargs_read Space [] rest of (as, ok) \<Rightarrow> (w # as, ok))"
proof -
  obtain c w' where w: "w = c # w'" using assms(1) by (cases w) (auto simp: plain_path_def)
  then have c: "plain_char c" and w': "list_all plain_char w'"
    using assms(1) by (simp_all add: plain_path_def)
  have "xargs_read Space [] (w @ nl # rest) = xargs_read Norm [c] (w' @ nl # rest)"
    using xargs_read_space_char [OF c] w by simp
  also have "\<dots> = xargs_read Norm ([c] @ w') (nl # rest)"
    using xargs_read_word [OF w', of "[c]" "nl # rest"] assms(2) w by simp
  also have "\<dots> = (case xargs_read Space [] rest of (as, ok) \<Rightarrow> (w # as, ok))"
    using w by (simp only: xargs_read_norm_nl append_Cons append_Nil)
  finally show ?thesis .
qed

lemma xargs_read_plain:
  "list_all (\<lambda>w. plain_path w \<and> length w \<le> line_max) ws \<Longrightarrow>
   xargs_read Space [] (xargs_input ws) = (ws, True)"
proof (induction ws)
  case Nil
  then show ?case by (simp add: xargs_input_def)
next
  case (Cons w ws)
  then have w: "plain_path w" "length w \<le> line_max"
    and ih: "xargs_read Space [] (xargs_input ws) = (ws, True)" by simp_all
  have "xargs_input (w # ws) = w @ nl # xargs_input ws" by (simp add: xargs_input_def)
  then show ?case using xargs_read_line [OF w, of "xargs_input ws"] ih by simp
qed

lemma command_chars_append: "command_chars (as @ bs) = command_chars as + command_chars bs"
  by (simp add: command_chars_def)

lemma command_chars_Cons: "command_chars (a # as) = length a + 1 + command_chars as"
  by (simp add: command_chars_def)

lemma command_chars_member: "a \<in> set as \<Longrightarrow> length a + 1 \<le> command_chars as"
  by (induction as) (auto simp: command_chars_Cons)

lemma xargs_batches_prefix:
  "used + command_chars as \<le> arg_max \<Longrightarrow>
   xargs_batches used cur (as @ rest) = xargs_batches (used + command_chars as) (cur @ as) rest"
proof (induction as arbitrary: used cur)
  case Nil
  then show ?case by (simp add: command_chars_def)
next
  case (Cons a as)
  have fit: "\<not> arg_max < used + (length a + 1)"
    using Cons.prems by (simp add: command_chars_Cons)
  have "used + (length a + 1) + command_chars as \<le> arg_max"
    using Cons.prems by (simp add: command_chars_Cons)
  then have "xargs_batches (used + (length a + 1)) (cur @ [a]) (as @ rest) =
          xargs_batches (used + (length a + 1) + command_chars as) ((cur @ [a]) @ as) rest"
    by (rule Cons.IH)
  then show ?case using fit by (simp add: command_chars_Cons add.assoc)
qed

lemma xargs_batches_fit:
  assumes "used + command_chars as \<le> arg_max"
  shows "xargs_batches used cur as = (if cur @ as = [] then [] else [cur @ as], True)"
  using xargs_batches_prefix [OF assms, of cur "[]"] by simp

lemma xargs_batches_two:
  assumes "as1 \<noteq> []" "initial_chars + command_chars as1 \<le> arg_max"
    "arg_max < initial_chars + command_chars as1 + (length a + 1)"
    "initial_chars + command_chars (a # as2) \<le> arg_max"
  shows "xargs_batches initial_chars [] (as1 @ a # as2) = ([as1, a # as2], True)"
proof -
  have "xargs_batches initial_chars [] (as1 @ a # as2) =
        xargs_batches (initial_chars + command_chars as1) as1 (a # as2)"
    using xargs_batches_prefix [OF assms(2), of "[]" "a # as2"] by simp
  also have "\<dots> = (case xargs_batches (initial_chars + (length a + 1)) [a] as2 of
                      (bs, ok) \<Rightarrow> (as1 # bs, ok))"
    using assms(1,3) by simp
  also have "xargs_batches (initial_chars + (length a + 1)) [a] as2 = ([a # as2], True)"
    using xargs_batches_fit [of "initial_chars + (length a + 1)" as2 "[a]"] assms(4)
    by (simp add: command_chars_Cons add.assoc)
  finally show ?thesis by simp
qed

lemma plain_args_read:
  assumes "list_all plain_path args" "\<forall>a\<in>set args. length a \<le> line_max"
  shows "xargs_read Space [] (xargs_input args) = (args, True)"
  using assms xargs_read_plain [of args] by (simp add: list_all_iff)

lemma fits_line_max:
  assumes "fits_one_run args" "a \<in> set args"
  shows "length a \<le> line_max"
  using assms command_chars_member [OF assms(2)]
  by (simp add: fits_one_run_def line_max_def)

lemma xargs_runs_fit:
  assumes "list_all plain_path args" "fits_one_run args"
  shows "xargs_runs (xargs_input args) = ([args], True)"
proof -
  have "xargs_read Space [] (xargs_input args) = (args, True)"
    using plain_args_read [OF assms(1)] fits_line_max [OF assms(2)] by blast
  moreover have "xargs_batches initial_chars [] args = (if args = [] then [] else [args], True)"
    using xargs_batches_fit [of initial_chars args "[]"] assms(2) by (simp add: fits_one_run_def)
  ultimately show ?thesis by (simp add: xargs_runs_def)
qed

lemma grep_q_range: "grep_q wt pat fs = 0 \<or> grep_q wt pat fs = 1 \<or> grep_q wt pat fs = 2"
  by (simp add: grep_q_def)

lemma grep_q_zero: "grep_q wt pat fs = 0 \<longleftrightarrow> list_ex (file_matches wt pat) fs"
  by (simp add: grep_q_def)

lemma xargs_status_zero:
  "xargs_status ok rs = 0 \<longleftrightarrow> ok \<and> list_all (\<lambda>r. r = 0) rs"
  by (auto simp: xargs_status_def list_ex_iff list_all_iff)

lemma entry_status:
  "check_pruna_pro_entry wt es =
     (case grep_runs es of (runs, ok) \<Rightarrow>
        if ok \<and> list_all (\<lambda>fs. list_ex (file_matches wt ''pruna_pro'') fs) runs then 1 else 0)"
  by (cases "grep_runs es")
     (auto simp: check_pruna_pro_entry_def pipeline_status_def xargs_status_zero list_all_iff grep_q_zero)

lemma grep_runs_plain:
  assumes "list_all plain_entry es"
    and "fits_one_run (map listed_path (filter (\<lambda>e. status e \<noteq> Deleted) es))"
  shows "grep_runs es = ([map listed_path (filter (\<lambda>e. status e \<noteq> Deleted) es)], True)"
proof -
  have "list_all plain_path (map listed_path (filter (\<lambda>e. status e \<noteq> Deleted) es))"
    using assms(1) listed_path_plain by (auto simp: list_all_iff)
  then show ?thesis
    using xargs_runs_fit [OF _ assms(2)] awk_prog_plain [OF assms(1)] by (simp add: grep_runs_def)
qed

lemma entry_plain:
  assumes "list_all plain_entry es"
    and "fits_one_run (map listed_path (filter (\<lambda>e. status e \<noteq> Deleted) es))"
  shows "check_pruna_pro_entry wt es =
           (if list_ex (file_matches wt ''pruna_pro'')
                 (map listed_path (filter (\<lambda>e. status e \<noteq> Deleted) es)) then 1 else 0)"
  using grep_runs_plain [OF assms] by (simp add: entry_status)

lemma file_matches_exists: "file_matches wt pat f \<Longrightarrow> wt f \<noteq> None"
  by (auto simp: file_matches_def split: option.splits)


lemmas hook_eval =
  hook_filenames_def check_pruna_pro_def matches_filter_def re_search_def Let_def

lemmas plain_eval =
  plain_entry_def plain_path_def plain_char_def fits_one_run_def command_chars_def
  initial_chars_value arg_max_def listed_path_def

lemma decimal_length_3: "n < 1000 \<Longrightarrow> length (decimal n) \<le> 3"
proof -
  assume n: "n < 1000"
  show ?thesis
  proof (cases "n < 10")
    case True
    then show ?thesis by (simp add: decimal.simps [of n])
  next
    case False
    show ?thesis
    proof (cases "n div 10 < 10")
      case True
      then show ?thesis using False
        by (simp add: decimal.simps [of n] decimal.simps [of "n div 10"])
    next
      case d: False
      have "n div 10 div 10 < 10" using n by simp
      then show ?thesis using False d
        by (simp add: decimal.simps [of n] decimal.simps [of "n div 10"]
            decimal.simps [of "n div 10 div 10"])
    qed
  qed
qed

lemma pad3_length: "n < 1000 \<Longrightarrow> length (pad3 n) = 3"
  using decimal_length_3 [of n] by (simp add: pad3_def)

lemma command_chars_uniform:
  "\<forall>a\<in>set as. length a = k \<Longrightarrow> command_chars as = length as * (k + 1)"
  by (induction as) (simp_all add: command_chars_def)

lemma xargs_status_miss: "xargs_status True [0, 1] = 123"
  by (simp add: xargs_status_def)

section \<open>The check-pruna-pro guard\<close>

text \<open>
  Claim C1 says that the guard fails exactly when a line of the staged diff contains
  \<^verbatim>\<open>pruna_pro\<close>. The entry never reads the diff: it lists the staged paths, drops the
  deletions and greps the files in the working tree. A staged deletion of a file that
  imported the package puts the string on a removed line of the staged diff, and the
  guard accepts the commit.
\<close>

theorem staged_diff_line_counterexample:
  "staged_diff_contains ''pruna_pro''
     [ \<lparr> status = Modified, old_path = [], path = ''src/pruna/ok.py'', tags = [''text'', ''python''],
         diff_lines = [''+x = 1''] \<rparr>,
       \<lparr> status = Deleted, old_path = [], path = ''src/pruna/old.py'', tags = [''text'', ''python''],
         diff_lines = [''-import pruna_pro''] \<rparr> ] \<and>
   run_check_pruna_pro [''src/pruna/ok.py'' \<mapsto> [''x = 1'']]
     [ \<lparr> status = Modified, old_path = [], path = ''src/pruna/ok.py'', tags = [''text'', ''python''],
         diff_lines = [''+x = 1''] \<rparr>,
       \<lparr> status = Deleted, old_path = [], path = ''src/pruna/old.py'', tags = [''text'', ''python''],
         diff_lines = [''-import pruna_pro''] \<rparr> ] = 0"
proof -
  let ?es = "[ \<lparr> status = Modified, old_path = [], path = ''src/pruna/ok.py'',
                 tags = [''text'', ''python''], diff_lines = [''+x = 1''] \<rparr>,
               \<lparr> status = Deleted, old_path = [], path = ''src/pruna/old.py'',
                 tags = [''text'', ''python''], diff_lines = [''-import pruna_pro''] \<rparr> ]"
  let ?wt = "[''src/pruna/ok.py'' \<mapsto> [''x = 1'']]"
  have pl: "list_all plain_entry ?es" by (simp add: plain_eval)
  have ft: "fits_one_run (map listed_path (filter (\<lambda>e. status e \<noteq> Deleted) ?es))"
    by (simp add: plain_eval)
  have "check_pruna_pro_entry ?wt ?es = 0"
    using entry_plain [OF pl ft, of ?wt] by (simp add: listed_path_def file_matches_def)
  then have "run_check_pruna_pro ?wt ?es = 0" by (simp add: run_check_pruna_pro_def)
  moreover have "staged_diff_contains ''pruna_pro'' ?es" by (simp add: staged_diff_contains_def)
  ultimately show ?thesis by blast
qed

text \<open>
  Claim C1, amended: for every staged change set whose entries are additions,
  modifications, type changes or deletions of text files with plain paths under
  \<^verbatim>\<open>src/\<close>, and whose paths other than the deleted ones fit one command line of grep,
  the guard returns 1 when the file of some staged entry that is not a deletion, as the
  hook finds it in the working tree, has a line containing \<^verbatim>\<open>pruna_pro\<close>, and returns 0
  otherwise.
\<close>

theorem check_pruna_pro_rejects_iff_file_contains:
  assumes "\<forall>e\<in>set es. status e \<in> {Added, Deleted, Modified, TypeChanged} \<and>
                     plain_path (path e) \<and> matches_filter check_pruna_pro e"
    and "fits_one_run (map path (filter (\<lambda>e. status e \<noteq> Deleted) es))"
  shows "run_check_pruna_pro wt es =
           (if \<exists>e\<in>set es. status e \<noteq> Deleted \<and> file_matches wt ''pruna_pro'' (path e)
            then 1 else 0)"
proof -
  have one_path: "\<forall>e\<in>set es. \<not> two_paths (status e)"
    using assms(1) by auto
  have plain: "list_all plain_entry es"
    using assms(1) one_path by (simp add: list_all_iff plain_entry_def)
  have listed: "map listed_path (filter (\<lambda>e. status e \<noteq> Deleted) es) =
                map path (filter (\<lambda>e. status e \<noteq> Deleted) es)"
    using one_path by (simp add: listed_path_def)
  have entry: "check_pruna_pro_entry wt es =
          (if list_ex (file_matches wt ''pruna_pro'') (map path (filter (\<lambda>e. status e \<noteq> Deleted) es))
           then 1 else 0)"
    using entry_plain [OF plain, of wt] assms(2) listed by simp
  have found: "list_ex (file_matches wt ''pruna_pro'') (map path (filter (\<lambda>e. status e \<noteq> Deleted) es)) \<longleftrightarrow>
          (\<exists>e\<in>set es. status e \<noteq> Deleted \<and> file_matches wt ''pruna_pro'' (path e))"
    by (auto simp: list_ex_iff)
  show ?thesis
  proof (cases "\<exists>e\<in>set es. status e \<noteq> Deleted \<and> file_matches wt ''pruna_pro'' (path e)")
    case True
    then obtain e where e: "e \<in> set es" "status e \<noteq> Deleted" "file_matches wt ''pruna_pro'' (path e)"
      by blast
    then have "status e \<noteq> Deleted \<and> wt (path e) \<noteq> None \<and> matches_filter check_pruna_pro e"
      using assms(1) file_matches_exists by blast
    then have "filter (\<lambda>e. status e \<noteq> Deleted \<and> wt (path e) \<noteq> None \<and>
                   matches_filter check_pruna_pro e) es \<noteq> []"
      using e(1) by (auto simp: filter_empty_conv)
    then have "hook_filenames check_pruna_pro wt es \<noteq> []"
      by (simp add: hook_filenames_def)
    then show ?thesis using True found entry by (simp add: run_check_pruna_pro_def)
  next
    case False
    then have "check_pruna_pro_entry wt es = 0" using found entry by metis
    then show ?thesis using False by (simp add: run_check_pruna_pro_def)
  qed
qed

theorem check_pruna_pro_rejects_iff_file_contains_witness:
  "list_all (\<lambda>e. status e \<in> {Added, Deleted, Modified, TypeChanged} \<and> plain_path (path e) \<and>
                 matches_filter check_pruna_pro e)
     [ \<lparr> status = Added, old_path = [], path = ''src/pruna/new.py'', tags = [''text'', ''python''],
         diff_lines = [''+import pruna_pro''] \<rparr>,
       \<lparr> status = Deleted, old_path = [], path = ''src/pruna/old.py'', tags = [''text'', ''python''],
         diff_lines = [''-x = 1''] \<rparr> ] \<and>
   fits_one_run [''src/pruna/new.py''] \<and>
   run_check_pruna_pro [''src/pruna/new.py'' \<mapsto> [''import pruna_pro'']]
     [ \<lparr> status = Added, old_path = [], path = ''src/pruna/new.py'', tags = [''text'', ''python''],
         diff_lines = [''+import pruna_pro''] \<rparr>,
       \<lparr> status = Deleted, old_path = [], path = ''src/pruna/old.py'', tags = [''text'', ''python''],
         diff_lines = [''-x = 1''] \<rparr> ] = 1"
proof -
  let ?es = "[ \<lparr> status = Added, old_path = [], path = ''src/pruna/new.py'',
                 tags = [''text'', ''python''], diff_lines = [''+import pruna_pro''] \<rparr>,
               \<lparr> status = Deleted, old_path = [], path = ''src/pruna/old.py'',
                 tags = [''text'', ''python''], diff_lines = [''-x = 1''] \<rparr> ]"
  let ?wt = "[''src/pruna/new.py'' \<mapsto> [''import pruna_pro'']]"
  have h: "\<forall>e\<in>set ?es. status e \<in> {Added, Deleted, Modified, TypeChanged} \<and>
                        plain_path (path e) \<and> matches_filter check_pruna_pro e"
    by (simp add: hook_eval plain_path_def plain_char_def)
  have f: "fits_one_run [''src/pruna/new.py'']"
    by (simp add: plain_eval)
  then have f': "fits_one_run (map path (filter (\<lambda>e. status e \<noteq> Deleted) ?es))" by simp
  have m: "\<exists>e\<in>set ?es. status e \<noteq> Deleted \<and> file_matches ?wt ''pruna_pro'' (path e)"
    by (simp add: file_matches_def)
  have "run_check_pruna_pro ?wt ?es = 1"
    using check_pruna_pro_rejects_iff_file_contains [OF h f', of ?wt] m by simp
  moreover have "list_all (\<lambda>e. status e \<in> {Added, Deleted, Modified, TypeChanged} \<and>
                             plain_path (path e) \<and> matches_filter check_pruna_pro e) ?es"
    using h by (simp add: list_all_iff)
  ultimately show ?thesis using f by blast
qed

text \<open>
  Claim C2 says that the guard exits with status 1 when it finds a match. xargs hands grep
  at most 128 KiB of command line at a time, returns 123 as soon as one run of grep finds
  nothing, and the entry turns every status of xargs other than 0 into exit 0. With 6241
  added files staged under \<^verbatim>\<open>src/pruna/\<close>, each path 20 bytes long and the first file
  importing the package, grep runs twice: on the first 6240 files, where it finds the
  string, and on the last file, where it does not. The hook has files to check, runs the
  entry, and the entry exits 0.
\<close>

theorem check_pruna_pro_misses_match_in_long_list:
  "let leak = ''src/pruna/a000000.py'';
       numbered = (\<lambda>i. ''src/pruna/f'' @ pad3 (i div 1000) @ pad3 (i mod 1000) @ ''.py'');
       others = map numbered [0..<6240];
       added = (\<lambda>p ls. \<lparr> status = Added, old_path = [], path = p, tags = [''text'', ''python''],
                         diff_lines = map ((#) (CHR ''+'')) ls \<rparr>);
       es = added leak [''import pruna_pro''] # map (\<lambda>p. added p [''x = 1'']) others;
       wt = (\<lambda>p. if p = leak then Some [''import pruna_pro'']
                 else if p \<in> set others then Some [''x = 1''] else None)
   in grep_runs es = ([leak # map numbered [0..<6239], [numbered 6239]], True) \<and>
      grep_q wt ''pruna_pro'' (leak # map numbered [0..<6239]) = 0 \<and>
      grep_q wt ''pruna_pro'' [numbered 6239] = 1 \<and>
      hook_filenames check_pruna_pro wt es \<noteq> [] \<and>
      check_pruna_pro_entry wt es = 0 \<and>
      run_check_pruna_pro wt es = 0"
proof -
  define leak where "leak = ''src/pruna/a000000.py''"
  define numbered where "numbered = (\<lambda>i. ''src/pruna/f'' @ pad3 (i div 1000) @ pad3 (i mod 1000) @ ''.py'')"
  define others where "others = map numbered [0..<6240]"
  define added where "added = (\<lambda>p ls. \<lparr> status = Added, old_path = [], path = p,
      tags = [''text'', ''python''], diff_lines = map ((#) (CHR ''+'')) ls \<rparr>)"
  define es where "es = added leak [''import pruna_pro''] # map (\<lambda>p. added p [''x = 1'']) others"
  define wt where "wt = (\<lambda>p. if p = leak then Some [''import pruna_pro'']
                 else if p \<in> set others then Some [''x = 1''] else None)"
  define first_run where "first_run = leak # map numbered [0..<6239]"
  have numbered_length: "length (numbered i) = 20" if "i < 1000000" for i
  proof -
    have "i div 1000 < 1000" using that by simp
    then show ?thesis using pad3_length [of "i div 1000"] pad3_length [of "i mod 1000"]
      by (simp add: numbered_def)
  qed
  have numbered_plain: "plain_path (numbered i)" for i
    using pad3_plain [of "i div 1000"] pad3_plain [of "i mod 1000"]
    by (simp add: numbered_def plain_path_def plain_char_def)
  have numbered_not_leak: "numbered i \<noteq> leak" for i
    by (simp add: numbered_def leak_def)
  have leak_plain: "plain_path leak" by (simp add: leak_def plain_path_def plain_char_def)
  have leak_length: "length leak = 20" by (simp add: leak_def)
  have split: "others = map numbered [0..<6239] @ [numbered 6239]"
  proof -
    have "[0..<Suc 6239] = [0..<6239] @ [6239]" by (rule upt_Suc_append) simp
    moreover have "Suc 6239 = 6240" by simp
    ultimately show ?thesis by (simp add: others_def)
  qed
  have args: "map path es = first_run @ [numbered 6239]"
    by (simp add: es_def added_def split first_run_def comp_def)
  have all_added: "filter (\<lambda>e. status e \<noteq> Deleted) es = es"
    by (auto simp: es_def added_def filter_id_conv)
  have plain: "list_all plain_entry es"
    using leak_plain numbered_plain
    by (auto simp: es_def added_def plain_entry_def others_def list_all_iff)
  have listed: "map listed_path es = map path es"
    by (auto simp: es_def added_def listed_path_def)
  have out: "awk_prog (git_diff_cached_name_status es) = first_run @ [numbered 6239]"
    using awk_prog_plain [OF plain] all_added listed args by simp
  have first_lengths: "\<forall>a\<in>set first_run. length a = 20"
    using leak_length numbered_length by (auto simp: first_run_def)
  have first_chars: "command_chars first_run = 131040"
    using command_chars_uniform [OF first_lengths] by (simp add: first_run_def)
  have all_plain: "list_all plain_path (first_run @ [numbered 6239])"
    using leak_plain numbered_plain by (auto simp: first_run_def list_all_iff)
  have all_short: "\<forall>a\<in>set (first_run @ [numbered 6239]). length a \<le> line_max"
    using first_lengths numbered_length [of 6239] by (auto simp: line_max_value)
  have read: "xargs_read Space [] (xargs_input (first_run @ [numbered 6239])) =
              (first_run @ [numbered 6239], True)"
    using all_plain all_short by (rule plain_args_read)
  have batches: "xargs_batches initial_chars [] (first_run @ [numbered 6239]) =
                 ([first_run, [numbered 6239]], True)"
  proof (rule xargs_batches_two)
    show "first_run \<noteq> []" by (simp add: first_run_def)
    show "initial_chars + command_chars first_run \<le> arg_max"
      by (simp add: first_chars initial_chars_value arg_max_def)
    show "arg_max < initial_chars + command_chars first_run + (length (numbered 6239) + 1)"
      using numbered_length [of 6239] by (simp add: first_chars initial_chars_value arg_max_def)
    show "initial_chars + command_chars [numbered 6239] \<le> arg_max"
      using numbered_length [of 6239] by (simp add: command_chars_def initial_chars_value arg_max_def)
  qed
  have runs: "grep_runs es = ([first_run, [numbered 6239]], True)"
    using out read batches by (simp add: grep_runs_def xargs_runs_def)
  have hit: "grep_q wt ''pruna_pro'' first_run = 0"
    by (simp add: grep_q_def first_run_def file_matches_def wt_def)
  have last_in: "numbered 6239 \<in> set others" by (simp add: split)
  have miss: "grep_q wt ''pruna_pro'' [numbered 6239] = 1"
    using numbered_not_leak [of 6239] last_in by (simp add: grep_q_def file_matches_def wt_def)
  have entry: "check_pruna_pro_entry wt es = 0"
    using runs hit miss xargs_status_miss
    by (simp add: check_pruna_pro_entry_def pipeline_status_def)
  then have run: "run_check_pruna_pro wt es = 0"
    by (simp add: run_check_pruna_pro_def)
  have ran: "hook_filenames check_pruna_pro wt es \<noteq> []"
    by (simp add: es_def added_def wt_def leak_def hook_eval)
  show ?thesis
    using runs hit miss ran entry run
    unfolding Let_def leak_def [symmetric] numbered_def [symmetric] others_def [symmetric]
      added_def [symmetric] es_def [symmetric] wt_def [symmetric] first_run_def [symmetric]
    by simp
qed

text \<open>
  Claim C3 says that a staged file outside \<^verbatim>\<open>src/\<close> never makes the guard reject. The
  hook declares \<open>files\<close> as \<^verbatim>\<open>^src/\<close>, but its entry lists every staged path again and
  greps them all. With one clean file under \<^verbatim>\<open>src/\<close> staged, so that the hook runs, a
  staged \<^verbatim>\<open>README.md\<close> that contains the string makes the guard return 1; the same
  change set with the string taken out of \<^verbatim>\<open>README.md\<close> returns 0.
\<close>

theorem check_pruna_pro_reads_files_outside_src:
  "run_check_pruna_pro [''src/pruna/ok.py'' \<mapsto> [''x = 1''], ''README.md'' \<mapsto> [''see pruna_pro'']]
     [ \<lparr> status = Modified, old_path = [], path = ''README.md'', tags = [''text'', ''markdown''],
         diff_lines = [''+see pruna_pro''] \<rparr>,
       \<lparr> status = Modified, old_path = [], path = ''src/pruna/ok.py'', tags = [''text'', ''python''],
         diff_lines = [''+x = 1''] \<rparr> ] = 1 \<and>
   run_check_pruna_pro [''src/pruna/ok.py'' \<mapsto> [''x = 1''], ''README.md'' \<mapsto> [''see pruna'']]
     [ \<lparr> status = Modified, old_path = [], path = ''README.md'', tags = [''text'', ''markdown''],
         diff_lines = [''+see pruna''] \<rparr>,
       \<lparr> status = Modified, old_path = [], path = ''src/pruna/ok.py'', tags = [''text'', ''python''],
         diff_lines = [''+x = 1''] \<rparr> ] = 0"
proof -
  let ?es1 = "[ \<lparr> status = Modified, old_path = [], path = ''README.md'',
                  tags = [''text'', ''markdown''], diff_lines = [''+see pruna_pro''] \<rparr>,
                \<lparr> status = Modified, old_path = [], path = ''src/pruna/ok.py'',
                  tags = [''text'', ''python''], diff_lines = [''+x = 1''] \<rparr> ]"
  let ?es0 = "[ \<lparr> status = Modified, old_path = [], path = ''README.md'',
                  tags = [''text'', ''markdown''], diff_lines = [''+see pruna''] \<rparr>,
                \<lparr> status = Modified, old_path = [], path = ''src/pruna/ok.py'',
                  tags = [''text'', ''python''], diff_lines = [''+x = 1''] \<rparr> ]"
  let ?wt1 = "[''src/pruna/ok.py'' \<mapsto> [''x = 1''], ''README.md'' \<mapsto> [''see pruna_pro'']]"
  let ?wt0 = "[''src/pruna/ok.py'' \<mapsto> [''x = 1''], ''README.md'' \<mapsto> [''see pruna'']]"
  have pl1: "list_all plain_entry ?es1" and pl0: "list_all plain_entry ?es0"
    by (simp_all add: plain_eval)
  have ft1: "fits_one_run (map listed_path (filter (\<lambda>e. status e \<noteq> Deleted) ?es1))"
    and ft0: "fits_one_run (map listed_path (filter (\<lambda>e. status e \<noteq> Deleted) ?es0))"
    by (simp_all add: plain_eval)
  have e1: "check_pruna_pro_entry ?wt1 ?es1 = 1"
    using entry_plain [OF pl1 ft1, of ?wt1] by (simp add: listed_path_def file_matches_def)
  have e0: "check_pruna_pro_entry ?wt0 ?es0 = 0"
    using entry_plain [OF pl0 ft0, of ?wt0] by (simp add: listed_path_def file_matches_def)
  have h1: "hook_filenames check_pruna_pro ?wt1 ?es1 \<noteq> []"
    by (simp add: hook_eval)
  show ?thesis using e1 e0 h1 by (simp add: run_check_pruna_pro_def)
qed



section \<open>The CI workflow and the pre-commit hooks\<close>

text \<open>
  Claim C5: the workflow runs for pull requests whose base branch is \<open>main\<close> and for
  nothing else; its one job runs checkout, the set-up of Python and Poetry, ruff, the
  installation of the dependencies, mypy and the docstring-style tests in this order.
  The job has nine steps: beside the ones named, it removes the \<^verbatim>\<open>.so\<close> files between
  the installation of the dependencies and mypy.
\<close>

theorem ci_workflow_trigger_and_steps:
  "(triggered_by code_quality_checks ev b \<longleftrightarrow> ev = ''pull_request'' \<and> b = ''main'') \<and>
   map fst (jobs code_quality_checks) = [''linting''] \<and>
   map step_name (steps linting) =
     [''Checkout code'', ''Set up Python'', ''Install Poetry'',
      ''Configure Poetry to not create virtual environments'', ''Run ruff on Pruna code'',
      ''Install dependencies'', ''Remove .so files'', ''Run mypy on Pruna code'',
      ''Run docstrings on Pruna code''] \<and>
   in_order
     [ Uses ''actions/checkout@v3'',
       Uses ''actions/setup-python@v3'',
       Run [ ''curl -sSL https://install.python-poetry.org | python3 -'',
             ''echo '' @ dq @ ''${HOME}/.local/bin'' @ dq @ '' >> $GITHUB_PATH'' ],
       Run [''poetry config virtualenvs.create false''],
       Uses ''astral-sh/ruff-action@v3'',
       Run [''pip install -e .[tests]''],
       Run [''mypy --show-traceback src/pruna''],
       Run [''pytest -m '' @ dq @ ''style'' @ dq] ]
     (map action (steps linting))"
  by (auto simp: triggered_by_def code_quality_checks_def linting_def dq_def)

text \<open>
  Claim C7: the linter and the type checker that the pre-commit hooks run are the ones
  the CI job runs: of ruff and mypy, the hooks invoke the same set as the steps, namely
  both. The hooks are ruff, mypy and the check-pruna-pro guard.
\<close>

theorem pre_commit_runs_the_ci_tools:
  "{t \<in> set lint_type_tools. pre_commit_invokes t} = {t \<in> set lint_type_tools. ci_invokes t} \<and>
   list_all pre_commit_invokes lint_type_tools \<and>
   list_all ci_invokes lint_type_tools \<and>
   map hook_id pre_commit_hooks = [''ruff'', ''mypy'', ''check-pruna-pro'']"
  by code_simp

section \<open>The extras of the manifest\<close>

text \<open>
  Claim C6: the manifest groups its optional packages into extras. It declares the
  extras \<open>stable-fast\<close>, \<open>dev\<close> and \<open>tests\<close>; every package of every extra is declared
  optional, and every optional package belongs to an extra.
\<close>

theorem extras_group_optional_dependencies:
  "list_all (declares_extra pyproject) [''stable-fast'', ''dev'', ''tests''] \<and>
   extra_packages pyproject ''stable-fast'' = [''xformers'', ''stable-fast-pruna''] \<and>
   extra_packages pyproject ''dev'' =
     [''jupyterlab'', ''notebook'', ''pre-commit'', ''build'', ''twine'', ''pyc-wheel'', ''ruff'',
      ''numpydoc-validation''] \<and>
   extra_packages pyproject ''tests'' =
     [''pytest'', ''pytest-cov'', ''coverage'', ''docutils'', ''jupyterlab'', ''numpydoc-validation'',
      ''mypy'', ''ruff'', ''types-PyYAML''] \<and>
   list_all (\<lambda>(n, ps). list_all (is_optional pyproject) ps) (extras pyproject) \<and>
   list_all (in_some_extra pyproject) (optional_packages pyproject)"
  by code_simp

text \<open>
  Claim C9: the manifest declares the extras \<open>stable-fast\<close>, \<open>onediff\<close>, \<open>autoawq\<close> and
  \<open>full\<close>, and every package of the first three is a package of \<open>full\<close>.
\<close>

theorem full_extra_is_superset:
  "list_all (declares_extra pyproject) [''stable-fast'', ''onediff'', ''autoawq'', ''full''] \<and>
   set (extra_packages pyproject ''stable-fast'') \<union> set (extra_packages pyproject ''onediff'') \<union>
     set (extra_packages pyproject ''autoawq'') \<subseteq> set (extra_packages pyproject ''full'')"
  by code_simp

section \<open>The call shape of the tutorials\<close>

lemmas notebook_eval =
  tutorial_notebooks_def llms_def asr_whisper_def program_def smash_assignment_def
  cuda_is_available_def

text \<open>
  Claim C4: each tutorial notebook assigns \<^verbatim>\<open>SmashConfig()\<close> to a variable, then sets an
  option of it by a string key (\<open>quantizer\<close> in one, \<open>compiler\<close> in the other), then
  calls \<open>smash\<close> with no positional argument and the keywords \<open>model\<close> and
  \<open>smash_config\<close>, and then invokes the object returned to run inference: the first
  notebook calls its method \<open>generate\<close>, the second calls the object itself. \<open>smash\<close> is
  called once in each notebook.
\<close>

theorem tutorials_share_call_shape:
  "list_all (\<lambda>nb. call_shape (program nb)) tutorial_notebooks \<and>
   map option_keys tutorial_notebooks = [[''quantizer''], [''compiler'']] \<and>
   map smash_calls tutorial_notebooks =
     [[([], [Some ''model'', Some ''smash_config''])], [([], [Some ''model'', Some ''smash_config''])]] \<and>
   map inference_calls tutorial_notebooks =
     [[Call (Attribute (Name ''smashed_model'') ''generate'') [] [(None, Name ''ins'')]],
      [Call (Name ''smashed_model'') [Name ''input_features''] []]]"
  by (simp add: notebook_eval call_shape_def option_keys_def smash_calls_def inference_calls_def)

end
